theory Spec2Isabelle
  imports Main
begin

section \<open>JavaScript values used by the program\<close>

text \<open>
  A JavaScript \<^verbatim>\<open>number\<close> that holds a byte count or a time value is modelled as an
  \<^typ>\<open>int\<close>. \<^verbatim>\<open>Number_toString\<close> is the decimal string JavaScript produces when such a
  number is concatenated to a string (integers of magnitude below 1e21; fractions, NaN and
  the exponent notation are outside the model).
\<close>

definition digit :: "nat \<Rightarrow> char" where
  "digit d = ''0123456789'' ! d"

fun string_of_nat :: "nat \<Rightarrow> string" where
  "string_of_nat n =
     (if n < 10 then [digit n] else string_of_nat (n div 10) @ [digit (n mod 10)])"

declare string_of_nat.simps [simp del]

definition Number_toString :: "int \<Rightarrow> string" where
  "Number_toString i =
     (if i < 0 then ''-'' @ string_of_nat (nat (- i)) else string_of_nat (nat i))"

text \<open>
  A \<^verbatim>\<open>Date\<close> is its time value: the milliseconds since the epoch, which is what
  \<^verbatim>\<open>getTime()\<close> returns.
\<close>

type_synonym Date = int

definition getTime :: "Date \<Rightarrow> int" where
  "getTime d = d"

text \<open>
  What a call can throw: \<^verbatim>\<open>new Error(message)\<close>, the \<^verbatim>\<open>TypeError\<close> of a property access
  on \<^verbatim>\<open>null\<close> or \<^verbatim>\<open>undefined\<close>, and the rejection of a promise of the remote transport.
\<close>

datatype error = Error string | TypeError | Rejected string

section \<open>The object store\<close>

text \<open>
  Files and folders are objects that refer to each other: a file holds a reference to its
  folder and the folder lists the file. Objects are therefore kept in a store and named
  by references; \<^verbatim>\<open>null\<close> is \<^term>\<open>None\<close>.
\<close>

type_synonym file_ref = nat
type_synonym folder_ref = nat

text \<open>
  The fields of \<^verbatim>\<open>FileBase\<close> (src/file/FileBase.ts). The class is abstract; a subclass
  is an extension of this record.
\<close>

record FileBase =
  filename :: string
  totalSize :: int
  creationDate :: Date
  modifyDate :: Date
  folder :: "folder_ref option"
  markedDeleted :: bool

text \<open>
  Modelled from the spec: the class \<^verbatim>\<open>Folder\<close> (src/file/filesystem/Folder.ts is not among
  the sources). The spec gives a folder a name, a parent reference (the root has none) and
  a mapping from child name to child node (file or folder).
\<close>

datatype node = FileNode file_ref | FolderNode folder_ref

record Folder =
  folder_name :: string
  parent :: "folder_ref option"
  children :: "string \<rightharpoonup> node"

record 'f heap =
  files :: "file_ref \<Rightarrow> 'f"
  folders :: "folder_ref \<Rightarrow> Folder"

text \<open>
  Modelled from the spec: \<^verbatim>\<open>Folder.addFile\<close> enters the file in the folder's mapping under
  the file's name, and \<^verbatim>\<open>Folder.removeFile\<close> detaches the node: it drops every entry of the
  mapping that holds this file. Neither touches the file object.
\<close>

definition Folder_addFile ::
  "folder_ref \<Rightarrow> file_ref \<Rightarrow> 'a FileBase_scheme heap \<Rightarrow> 'a FileBase_scheme heap" where
  "Folder_addFile d f h =
     h\<lparr>folders := (folders h)
        (d := (folders h d)\<lparr>children :=
           (children (folders h d))(filename (files h f) \<mapsto> FileNode f)\<rparr>)\<rparr>"

definition Folder_removeFile ::
  "folder_ref \<Rightarrow> file_ref \<Rightarrow> 'a FileBase_scheme heap \<Rightarrow> 'a FileBase_scheme heap" where
  "Folder_removeFile d f h =
     h\<lparr>folders := (folders h)
        (d := (folders h d)\<lparr>children :=
           (\<lambda>k. if children (folders h d) k = Some (FileNode f) then None
                else children (folders h d) k)\<rparr>)\<rparr>"

text \<open>
  Modelled from the spec: \<^verbatim>\<open>Folder.getAbsolutePath\<close>. The root folder's absolute path is
  the separator; a folder's absolute path is its parent's absolute path, then its own
  name, then a trailing separator. The walk up the parent references need not end in a
  store with a cycle of parents: not returning is the value \<^term>\<open>None\<close>.
\<close>

partial_function (option) Folder_getAbsolutePath ::
  "'f heap \<Rightarrow> folder_ref \<Rightarrow> string option" where
  "Folder_getAbsolutePath h d =
     (case parent (folders h d) of
        None \<Rightarrow> Some ''/''
      | Some p \<Rightarrow>
          Option.bind (Folder_getAbsolutePath h p)
            (\<lambda>up. Some (up @ folder_name (folders h d) @ ''/'')))"

declare Folder_getAbsolutePath.simps [code]

section \<open>FileBase (src/file/FileBase.ts)\<close>


definition isMarkedDeleted :: "file_ref \<Rightarrow> 'a FileBase_scheme heap \<Rightarrow> bool" where
  "isMarkedDeleted this h = markedDeleted (files h this)"

definition markDeleted :: "file_ref \<Rightarrow> 'a FileBase_scheme heap \<Rightarrow> 'a FileBase_scheme heap" where
  "markDeleted this h = h\<lparr>files := (files h)(this := (files h this)\<lparr>markedDeleted := True\<rparr>)\<rparr>"

definition getFolder :: "file_ref \<Rightarrow> 'a FileBase_scheme heap \<Rightarrow> folder_ref option" where
  "getFolder this h = folder (files h this)"

definition setNullFolder :: "file_ref \<Rightarrow> 'a FileBase_scheme heap \<Rightarrow> 'a FileBase_scheme heap" where
  "setNullFolder this h = h\<lparr>files := (files h)(this := (files h this)\<lparr>folder := None\<rparr>)\<rparr>"

text \<open>
  \<^verbatim>\<open>setFolder(folder: Folder, updateParents = false)\<close>: the parameter's type excludes
  \<^verbatim>\<open>null\<close>, so the new folder is a reference.
\<close>

definition setFolder ::
  "file_ref \<Rightarrow> folder_ref \<Rightarrow> bool \<Rightarrow> 'a FileBase_scheme heap \<Rightarrow> 'a FileBase_scheme heap" where
  "setFolder this dir updateParents h =
     (case folder (files h this) of
        Some old \<Rightarrow>
          if updateParents then
            (let h1 = Folder_removeFile old this h;
                 h2 = h1\<lparr>files := (files h1)(this := (files h1 this)\<lparr>folder := Some dir\<rparr>)\<rparr>
             in Folder_addFile dir this h2)
          else h\<lparr>files := (files h)(this := (files h this)\<lparr>folder := Some dir\<rparr>)\<rparr>
      | None \<Rightarrow> h\<lparr>files := (files h)(this := (files h this)\<lparr>folder := Some dir\<rparr>)\<rparr>)"

definition getFileName :: "file_ref \<Rightarrow> 'a FileBase_scheme heap \<Rightarrow> string" where
  "getFileName this h = filename (files h this)"

definition getEntryName :: "file_ref \<Rightarrow> 'a FileBase_scheme heap \<Rightarrow> string" where
  "getEntryName this h = filename (files h this)"

text \<open>
  \<^verbatim>\<open>getAbsolutePath\<close> throws when the folder reference is \<^verbatim>\<open>null\<close>; otherwise it is the
  folder's absolute path followed by the file's name. The outer \<^typ>\<open>'a option\<close> is
  \<^term>\<open>None\<close> only when the folder's walk to the root does not return.
\<close>

definition getAbsolutePath ::
  "file_ref \<Rightarrow> 'a FileBase_scheme heap \<Rightarrow> (error + string) option" where
  "getAbsolutePath this h =
     (case folder (files h this) of
        None \<Rightarrow> Some (Inl (Error ''Folder is null''))
      | Some d \<Rightarrow>
          (case Folder_getAbsolutePath h d of
             None \<Rightarrow> None
           | Some up \<Rightarrow> Some (Inr (up @ getFileName this h))))"

definition setFileName ::
  "file_ref \<Rightarrow> string \<Rightarrow> 'a FileBase_scheme heap \<Rightarrow> 'a FileBase_scheme heap" where
  "setFileName this newName h =
     h\<lparr>files := (files h)(this := (files h this)\<lparr>filename := newName\<rparr>)\<rparr>"

definition getSize :: "file_ref \<Rightarrow> 'a FileBase_scheme heap \<Rightarrow> int" where
  "getSize this h = totalSize (files h this)"

definition getCreationDate :: "file_ref \<Rightarrow> 'a FileBase_scheme heap \<Rightarrow> Date" where
  "getCreationDate this h = creationDate (files h this)"

definition setCreationDate ::
  "file_ref \<Rightarrow> Date \<Rightarrow> 'a FileBase_scheme heap \<Rightarrow> 'a FileBase_scheme heap" where
  "setCreationDate this date h =
     h\<lparr>files := (files h)(this := (files h this)\<lparr>creationDate := date\<rparr>)\<rparr>"

definition getModifyDate :: "file_ref \<Rightarrow> 'a FileBase_scheme heap \<Rightarrow> Date" where
  "getModifyDate this h = modifyDate (files h this)"

definition setModifyDate ::
  "file_ref \<Rightarrow> Date \<Rightarrow> 'a FileBase_scheme heap \<Rightarrow> 'a FileBase_scheme heap" where
  "setModifyDate this date h =
     h\<lparr>files := (files h)(this := (files h this)\<lparr>modifyDate := date\<rparr>)\<rparr>"

text \<open>\<^verbatim>\<open>updateModifyDate\<close> reads the clock: \<open>now\<close> is the value of \<^verbatim>\<open>new Date()\<close>.\<close>

definition updateModifyDate ::
  "Date \<Rightarrow> file_ref \<Rightarrow> 'a FileBase_scheme heap \<Rightarrow> 'a FileBase_scheme heap" where
  "updateModifyDate now this h =
     h\<lparr>files := (files h)(this := (files h this)\<lparr>modifyDate := now\<rparr>)\<rparr>"

definition setTotalSize ::
  "file_ref \<Rightarrow> int \<Rightarrow> 'a FileBase_scheme heap \<Rightarrow> 'a FileBase_scheme heap" where
  "setTotalSize this tsize h =
     h\<lparr>files := (files h)(this := (files h this)\<lparr>totalSize := tsize\<rparr>)\<rparr>"

definition getETag :: "file_ref \<Rightarrow> 'a FileBase_scheme heap \<Rightarrow> string" where
  "getETag this h =
     Number_toString (getTime (modifyDate (files h this))) @ ''-'' @
     Number_toString (getSize this h)"


text \<open>
  A folder from which the walk up the parent references meets the root within \<open>n\<close> steps.
  In such a store \<^verbatim>\<open>Folder.getAbsolutePath\<close> returns.
\<close>

fun reaches_root :: "nat \<Rightarrow> 'f heap \<Rightarrow> folder_ref \<Rightarrow> bool" where
  "reaches_root 0 h d = (parent (folders h d) = None)"
| "reaches_root (Suc n) h d =
     (case parent (folders h d) of None \<Rightarrow> True | Some p \<Rightarrow> reaches_root n h p)"

section \<open>The console and the remote transport\<close>

text \<open>
  What the program prints is part of what it does: a line of \<^verbatim>\<open>console.log\<close> with the
  colour the program wraps it in, an object handed to \<^verbatim>\<open>console.log\<close>, or a line of the
  logger. Each function that prints takes the output so far and returns it extended.
\<close>

datatype colour = Plain | Red | Yellow | Green

datatype 'obj console = Console colour string | ConsoleObject 'obj | LoggerInfo string

text \<open>
  How a call ends: it returns, it throws (an \<^verbatim>\<open>async\<close> function rejects), or it ends the
  process with an exit code (\<^verbatim>\<open>process.exit\<close> does not return).
\<close>

datatype 'a outcome = Returned 'a | Threw error | Exited int

text \<open>
  The objects of the remote transport (discord.js, not part of the repository), as far as
  the program reads them. A message has its snowflake and its attachments; snowflakes grow
  with time, so they are numbers here. A channel answers \<^verbatim>\<open>messages.fetch(options)\<close>. A guild
  has a name and its cache of channels.
\<close>

record Attachment =
  url :: string
  attachment_name :: string

record Message =
  msg_id :: nat
  attachments :: "Attachment list"

record FetchMessagesOptions =
  limit :: nat
  before :: "nat option"

datatype ChannelType = GuildText | GuildVoice | GuildCategory

record Channel =
  channel_name :: string
  channel_type :: ChannelType
  messages_fetch :: "FetchMessagesOptions \<Rightarrow> Message list"

record Guild =
  guild_name :: string
  channels :: "Channel list"

text \<open>
  The client part of the application object: the cache of guilds, and what the remote
  answers when a cached guild is fetched. The promise of \<^verbatim>\<open>fetch()\<close> rejects (\<^term>\<open>Inl\<close>) or
  resolves; \<^term>\<open>Inr None\<close> is a promise that resolves to no guild, the case \<^verbatim>\<open>prepare\<close>
  tests with \<^verbatim>\<open>!guild\<close>.
\<close>

record Client =
  guilds_cache :: "string \<rightharpoonup> Guild"
  guild_fetch :: "Guild \<Rightarrow> error + Guild option"

text \<open>
  The transport's contract for a channel whose history does not change while it is read:
  \<^verbatim>\<open>messages.fetch({limit, before})\<close> answers with the newest \<open>limit\<close> messages that are older
  than the message \<open>before\<close> (of the whole history when \<open>before\<close> is absent), newest first.
  \<open>history\<close> is the channel's history, newest first.
\<close>

definition history_fetch :: "Message list \<Rightarrow> FetchMessagesOptions \<Rightarrow> Message list" where
  "history_fetch history options =
     take (limit options)
       (case before options of
          None \<Rightarrow> history
        | Some b \<Rightarrow> filter (\<lambda>m. msg_id m < b) history)"

text \<open>
  \<^verbatim>\<open>guild.channels.create({name, type})\<close> adds a channel of that name and type, with an
  empty history, to the guild.
\<close>

definition channels_create :: "string \<Rightarrow> ChannelType \<Rightarrow> Guild \<Rightarrow> Guild" where
  "channels_create cname ctype guild =
     guild\<lparr>channels := channels guild @
       [\<lparr>channel_name = cname, channel_type = ctype, messages_fetch = history_fetch []\<rparr>]\<rparr>"

section \<open>DiscordFileStorageApp (src/DiscordFileStorageApp.ts)\<close>

record DiscordFileStorageAppOptions =
  options_metaChannelName :: string
  options_filesChannelName :: string
  options_shouldEncrypt :: bool
  options_encryptPassword :: "string option"

text \<open>
  The fields the constructor sets. The file manager and the logger are objects of classes
  outside the sources and hold no state a claim reads; the file system of the application
  is the store, passed to \<^verbatim>\<open>loadFiles\<close>.
\<close>

record DiscordFileStorageApp =
  guildId :: string
  metaChannelName :: string
  filesChannelId :: string
  channelsToCreate :: "string list"
  shouldEncrypt :: bool
  encryptPassword :: string

text \<open>
  The constructor reads and writes the static field \<^verbatim>\<open>DiscordFileStorageApp.instance\<close>: it
  takes the field's value and returns, with its result, the field's new value. Its first
  statement is \<^verbatim>\<open>super(options)\<close>, the constructor of the transport's \<^verbatim>\<open>Client\<close> class, which
  is outside the repository and is a parameter here: \<open>super options\<close> is the error that
  constructor throws for these options, or \<^term>\<open>None\<close> when it returns. The options extend
  the transport's \<^verbatim>\<open>ClientOptions\<close>, which are the extension of the options record.
\<close>

definition DiscordFileStorageApp_constructor ::
  "('a DiscordFileStorageAppOptions_scheme \<Rightarrow> error option) \<Rightarrow>
     'a DiscordFileStorageAppOptions_scheme \<Rightarrow> string \<Rightarrow> DiscordFileStorageApp option \<Rightarrow>
     (error + DiscordFileStorageApp) \<times> DiscordFileStorageApp option" where
  "DiscordFileStorageApp_constructor super options gid instance =
     (case super options of
        Some e \<Rightarrow> (Inl e, instance)
      | None \<Rightarrow>
          (case instance of
             Some existing \<Rightarrow> (Inl (Error ''DiscordFileStorageApp already exists''), instance)
           | None \<Rightarrow>
               (let this =
                  \<lparr>guildId = gid,
                   metaChannelName = options_metaChannelName options,
                   filesChannelId = options_filesChannelName options,
                   channelsToCreate =
                     [options_metaChannelName options, options_filesChannelName options],
                   shouldEncrypt = options_shouldEncrypt options,
                   encryptPassword =
                     (case options_encryptPassword options of None \<Rightarrow> '''' | Some p \<Rightarrow> p)\<rparr>
                in (Inr this, Some this))))"


definition shouldEncryptFiles :: "DiscordFileStorageApp \<Rightarrow> bool" where
  "shouldEncryptFiles this = shouldEncrypt this"

definition getEncryptPassword :: "DiscordFileStorageApp \<Rightarrow> string" where
  "getEncryptPassword this = encryptPassword this"

text \<open>
  \<^verbatim>\<open>getGuild\<close>: \<^verbatim>\<open>this.guilds.cache.get(this.guildId)!.fetch()\<close>. A guild that is not cached
  makes the call of \<^verbatim>\<open>fetch\<close> a \<^verbatim>\<open>TypeError\<close>.
\<close>

definition getGuild :: "DiscordFileStorageApp \<Rightarrow> Client \<Rightarrow> error + Guild option" where
  "getGuild this client =
     (case guilds_cache client (guildId this) of
        None \<Rightarrow> Inl TypeError
      | Some g \<Rightarrow> guild_fetch client g)"


definition getFileChannel ::
  "DiscordFileStorageApp \<Rightarrow> Client \<Rightarrow> error + Channel option" where
  "getFileChannel this client =
     (case getGuild this client of
        Inl e \<Rightarrow> Inl e
      | Inr None \<Rightarrow> Inl TypeError
      | Inr (Some guild) \<Rightarrow>
          Inr (find (\<lambda>channel. channel_name channel = filesChannelId this) (channels guild)))"

text \<open>\<^verbatim>\<open>printAndExit(message, exitCode = 1)\<close> and \<^verbatim>\<open>print(message)\<close>.\<close>

definition printAndExit ::
  "string \<Rightarrow> int \<Rightarrow> 'obj console list \<Rightarrow> 'obj console list \<times> 'a outcome" where
  "printAndExit message exitCode out = (out @ [Console Red message], Exited exitCode)"

definition print :: "string \<Rightarrow> 'obj console list \<Rightarrow> 'obj console list" where
  "print message out = out @ [Console Green message]"

text \<open>
  \<^verbatim>\<open>prepare\<close>. The loop over \<^verbatim>\<open>channelsToCreate\<close> tests each name against \<^verbatim>\<open>guildChannels\<close>,
  the text channels as they were before the loop. \<^verbatim>\<open>guild.channels.fetch()\<close> refreshes
  the guild's cache of channels and is taken to return: \<^term>\<open>channels guild\<close> is the cache
  after it.
\<close>

fun prepare_channels ::
  "Channel list \<Rightarrow> string list \<Rightarrow> Guild \<Rightarrow> 'obj console list \<Rightarrow> Guild \<times> 'obj console list" where
  "prepare_channels guildChannels [] guild out = (guild, out)"
| "prepare_channels guildChannels (channelToCreate # rest) guild out =
     (if \<not> list_ex (\<lambda>channel. channel_name channel = channelToCreate) guildChannels then
        prepare_channels guildChannels rest
          (channels_create channelToCreate GuildText guild)
          (out @ [Console Plain (''creating channel: '' @ channelToCreate)])
      else
        prepare_channels guildChannels rest guild
          (out @ [Console Green (''channel already exists: '' @ channelToCreate)]))"

definition prepare ::
  "DiscordFileStorageApp \<Rightarrow> Client \<Rightarrow> 'obj console list \<Rightarrow> 'obj console list \<times> Guild outcome" where
  "prepare this client out =
     (let guilds = guilds_cache client in
      if guildId this \<notin> dom guilds then printAndExit ''Guild not found'' 1 out
      else
        (case (case guilds (guildId this) of
                 None \<Rightarrow> Inr None
               | Some g \<Rightarrow> guild_fetch client g) of
           Inl e \<Rightarrow> (out, Threw e)
         | Inr None \<Rightarrow> printAndExit (''Failed to fetch guild: '' @ guildId this) 1 out
         | Inr (Some guild) \<Rightarrow>
             (let out1 = out @ [LoggerInfo (''Guild found: '' @ guild_name guild),
                                Console Yellow ''Fetching channels...''];
                  guildChannels = filter (\<lambda>channel. channel_type channel = GuildText) (channels guild);
                  (guild', out2) = prepare_channels guildChannels (channelsToCreate this) guild out1
              in (out2, Returned guild'))))"

text \<open>
  \<^verbatim>\<open>getAllMessages\<close>. The loop is \<^verbatim>\<open>while (true)\<close> and leaves only through \<^verbatim>\<open>break\<close>, so it
  need not return: not returning is the value \<^term>\<open>None\<close>. \<open>fetch\<close> is
  \<^verbatim>\<open>channel.messages.fetch\<close> of the channel the identifier resolves to. \<^verbatim>\<open>lastId\<close> is
  \<^verbatim>\<open>undefined\<close> before the first block and a snowflake, which is never falsy, after it.
\<close>

partial_function (option) getAllMessages_loop ::
  "(FetchMessagesOptions \<Rightarrow> Message list) \<Rightarrow> Message list \<Rightarrow> nat option \<Rightarrow>
     'obj console list \<Rightarrow> (Message list \<times> 'obj console list) option" where
  "getAllMessages_loop fetch allMessages lastId out =
     (let options = \<lparr>limit = 100, before = lastId\<rparr>;
          messages = fetch options;
          allMessages' = allMessages @ messages;
          out' = out @ [Console Plain (''[getAllMessages] got block of '' @
                          string_of_nat (length messages) @ '' messages'')]
      in if length messages < 100 then Some (allMessages', out')
         else getAllMessages_loop fetch allMessages' (Some (msg_id (last messages))) out')"

declare getAllMessages_loop.simps [code]

definition getAllMessages ::
  "Channel \<Rightarrow> 'obj console list \<Rightarrow> (Message list \<times> 'obj console list) option" where
  "getAllMessages channel out = getAllMessages_loop (messages_fetch channel) [] None out"

section \<open>The startup rebuild: loadFiles\<close>

text \<open>
  Modelled from the spec: the class \<^verbatim>\<open>RemoteFile\<close> (src/file/RemoteFile.ts is not among the
  sources) extends \<^verbatim>\<open>FileBase\<close>; the spec has the descriptor retain the identifier of its
  metadata message, which \<^verbatim>\<open>setMessageMetaIdInMetaChannel\<close> stores.
\<close>

record RemoteFile = FileBase +
  metaIdInMetaChannel :: "nat option"










section \<open>Example objects\<close>

text \<open>
  A store with a root folder 0, a folder \<open>A\<close> (reference 1) under it that lists the files
  \<open>f.txt\<close> (reference 7) and \<open>h.txt\<close> (reference 8), and a detached file \<open>g.bin\<close>
  (reference 3) of the same size and modification date as \<open>f.txt\<close>.
\<close>

definition example_store :: "RemoteFile heap" where
  "example_store =
     \<lparr>files = (\<lambda>_. \<lparr>filename = ''f.txt'', totalSize = 11, creationDate = 1000,
                     modifyDate = 2000, folder = Some 1, markedDeleted = False,
                     metaIdInMetaChannel = None\<rparr>)
               (3 := \<lparr>filename = ''g.bin'', totalSize = 11, creationDate = 500,
                     modifyDate = 2000, folder = None, markedDeleted = True,
                     metaIdInMetaChannel = None\<rparr>,
                8 := \<lparr>filename = ''h.txt'', totalSize = 4, creationDate = 1500,
                     modifyDate = 1500, folder = Some 1, markedDeleted = False,
                     metaIdInMetaChannel = None\<rparr>),
      folders = (\<lambda>_. \<lparr>folder_name = '''', parent = None, children = Map.empty\<rparr>)
               (1 := \<lparr>folder_name = ''A'', parent = Some 0,
                      children = [''f.txt'' \<mapsto> FileNode 7, ''h.txt'' \<mapsto> FileNode 8]\<rparr>)\<rparr>"

text \<open>
  An application for the guild \<open>42\<close>, constructed from options without a password. The
  guild has the metadata channel; its history, newest first, is a valid record (message 3),
  a malformed record (message 2) and a message without attachment (message 1).
\<close>

definition example_options :: DiscordFileStorageAppOptions where
  "example_options =
     \<lparr>options_metaChannelName = ''meta'', options_filesChannelName = ''files'',
      options_shouldEncrypt = True, options_encryptPassword = None\<rparr>"

definition example_app :: DiscordFileStorageApp where
  "example_app =
     \<lparr>guildId = ''42'', metaChannelName = ''meta'', filesChannelId = ''files'',
      channelsToCreate = [''meta'', ''files''], shouldEncrypt = True, encryptPassword = ''''\<rparr>"

definition example_history :: "Message list" where
  "example_history =
     [\<lparr>msg_id = 3, attachments = [\<lparr>url = ''good'', attachment_name = ''f.json''\<rparr>]\<rparr>,
      \<lparr>msg_id = 2, attachments = [\<lparr>url = ''bad'', attachment_name = ''x.json''\<rparr>]\<rparr>,
      \<lparr>msg_id = 1, attachments = []\<rparr>]"

definition example_channel :: Channel where
  "example_channel =
     \<lparr>channel_name = ''meta'', channel_type = GuildText,
      messages_fetch = history_fetch example_history\<rparr>"

definition example_guild :: Guild where
  "example_guild = \<lparr>guild_name = ''home'', channels = [example_channel]\<rparr>"

definition example_client :: Client where
  "example_client =
     \<lparr>guilds_cache = [''42'' \<mapsto> example_guild], guild_fetch = (\<lambda>g. Inr (Some g))\<rparr>"





section \<open>Properties of FileBase\<close>

subsection \<open>The folder's absolute path\<close>

lemma Folder_path_returns:
  "reaches_root n h d \<Longrightarrow> \<exists>up. Folder_getAbsolutePath h d = Some up"
proof (induction n arbitrary: d)
  case 0
  then show ?case by (subst Folder_getAbsolutePath.simps) simp
next
  case (Suc n)
  show ?case
  proof (cases "parent (folders h d)")
    case None
    then show ?thesis by (subst Folder_getAbsolutePath.simps) simp
  next
    case (Some p)
    with Suc.prems have "reaches_root n h p" by simp
    then obtain up where "Folder_getAbsolutePath h p = Some up"
      using Suc.IH by blast
    with Some show ?thesis by (subst Folder_getAbsolutePath.simps) simp
  qed
qed

lemma Folder_path_trailing_separator:
  "Folder_getAbsolutePath h d = Some up \<Longrightarrow> \<exists>pre. up = pre @ ''/''"
  by (subst (asm) Folder_getAbsolutePath.simps)
     (auto split: option.splits simp: bind_eq_Some_conv)

lemma example_path: "Folder_getAbsolutePath example_store 1 = Some ''/A/''"
  by (simp add: Folder_getAbsolutePath.simps example_store_def)

lemma example_ETag: "getETag 7 example_store = ''2000-11''"
  by (simp add: getETag_def getSize_def getTime_def Number_toString_def
      string_of_nat.simps digit_def example_store_def)

subsection \<open>The ETag\<close>

text \<open>
  Claim C3. \<^verbatim>\<open>getETag\<close> is a function of the pair (modifyDate, totalSize) alone: two files,
  in the same store or in two stores, with equal modification dates and equal sizes have
  equal ETags, whatever their other fields are. Nothing stores the ETag: after
  \<^verbatim>\<open>setModifyDate\<close> or \<^verbatim>\<open>setTotalSize\<close> the next call computes it from the new value. Each of
  the two setters changes its own field of its own file and nothing else in the store.
\<close>

theorem getETag_function_of_modifyDate_and_totalSize:
  "(getModifyDate f h = getModifyDate g k \<and> getSize f h = getSize g k
      \<longrightarrow> getETag f h = getETag g k)
   \<and> getETag f (setModifyDate f d h) =
       Number_toString (getTime d) @ ''-'' @ Number_toString (getSize f h)
   \<and> getETag f (setTotalSize f n h) =
       Number_toString (getTime (getModifyDate f h)) @ ''-'' @ Number_toString n
   \<and> folders (setModifyDate f d h) = folders h
   \<and> files (setModifyDate f d h) = (files h)(f := (files h f)\<lparr>modifyDate := d\<rparr>)
   \<and> folders (setTotalSize f n h) = folders h
   \<and> files (setTotalSize f n h) = (files h)(f := (files h f)\<lparr>totalSize := n\<rparr>)"
  by (simp add: getETag_def getModifyDate_def getSize_def setModifyDate_def setTotalSize_def)

text \<open>
  The files 7 and 3 of the example differ in name, folder, creation date and deletion
  mark, and agree in modification date and size: both have the ETag \<open>2000-11\<close>.
\<close>

theorem getETag_witness:
  "getModifyDate 7 example_store = getModifyDate 3 example_store
   \<and> getSize 7 example_store = getSize 3 example_store
   \<and> getFileName 7 example_store \<noteq> getFileName 3 example_store
   \<and> getETag 3 example_store = ''2000-11''"
proof -
  have a: "getModifyDate 7 example_store = getModifyDate 3 example_store"
    by (simp add: getModifyDate_def example_store_def)
  have b: "getSize 7 example_store = getSize 3 example_store"
    by (simp add: getSize_def example_store_def)
  have c: "getFileName 7 example_store \<noteq> getFileName 3 example_store"
    by (simp add: getFileName_def example_store_def)
  from getETag_function_of_modifyDate_and_totalSize [of 7 example_store 3 example_store 0 0]
  have "getETag 7 example_store = getETag 3 example_store"
    using a b by blast
  with example_ETag a b c show ?thesis by simp
qed

subsection \<open>Moving and renaming\<close>

text \<open>
  Claim C4. \<^verbatim>\<open>setFolder\<close> (with either value of \<^verbatim>\<open>updateParents\<close>) and \<^verbatim>\<open>setFileName\<close> leave
  the size, the creation date and the modification date unchanged, as \<^verbatim>\<open>getSize\<close>,
  \<^verbatim>\<open>getCreationDate\<close> and \<^verbatim>\<open>getModifyDate\<close> observe them, of the file they are called on and
  of every other file \<open>g\<close> of the store.
\<close>

theorem setFolder_setFileName_keep_size_and_dates:
  "getSize g (setFolder this dir updateParents h) = getSize g h
   \<and> getCreationDate g (setFolder this dir updateParents h) = getCreationDate g h
   \<and> getModifyDate g (setFolder this dir updateParents h) = getModifyDate g h
   \<and> getSize g (setFileName this newName h) = getSize g h
   \<and> getCreationDate g (setFileName this newName h) = getCreationDate g h
   \<and> getModifyDate g (setFileName this newName h) = getModifyDate g h"
  by (simp add: getSize_def getCreationDate_def getModifyDate_def setFolder_def setFileName_def
      Folder_addFile_def Folder_removeFile_def Let_def split: option.split)

subsection \<open>The file's absolute path\<close>

text \<open>
  Claim C6. For a file attached to a folder \<open>d\<close> from which the root is reached,
  \<^verbatim>\<open>getAbsolutePath\<close> returns the absolute path of \<open>d\<close>, which ends in the separator,
  followed by the file's own name.
\<close>

theorem getAbsolutePath_folder_path_then_name:
  assumes "getFolder this h = Some d" and "reaches_root n h d"
  shows "\<exists>up pre. Folder_getAbsolutePath h d = Some up \<and> up = pre @ ''/''
           \<and> getAbsolutePath this h = Some (Inr (up @ getFileName this h))"
proof -
  from assms(2) obtain up where up: "Folder_getAbsolutePath h d = Some up"
    using Folder_path_returns by blast
  then obtain pre where "up = pre @ ''/''"
    using Folder_path_trailing_separator by blast
  moreover have "getAbsolutePath this h = Some (Inr (up @ getFileName this h))"
    using assms(1) up by (simp add: getAbsolutePath_def getFolder_def)
  ultimately show ?thesis using up by blast
qed

text \<open>The file \<open>f.txt\<close> of the example, in the folder \<open>A\<close> under the root.\<close>

theorem getAbsolutePath_witness:
  "getFolder 7 example_store = Some 1 \<and> reaches_root 1 example_store 1
   \<and> getAbsolutePath 7 example_store = Some (Inr ''/A/f.txt'')"
  using getAbsolutePath_folder_path_then_name [of 7 example_store 1 1] example_path
  by (simp add: getFolder_def getFileName_def example_store_def)

text \<open>
  Claim C9. With a \<^verbatim>\<open>null\<close> folder reference, and so after \<^verbatim>\<open>setNullFolder\<close>,
  \<^verbatim>\<open>getAbsolutePath\<close> throws the error \<open>Folder is null\<close>. With a folder reference that is
  not \<^verbatim>\<open>null\<close> it throws no error at all.
\<close>

theorem getAbsolutePath_throws_iff_folder_null:
  "(getFolder this h = None \<longrightarrow> getAbsolutePath this h = Some (Inl (Error ''Folder is null'')))
   \<and> getAbsolutePath this (setNullFolder this h) = Some (Inl (Error ''Folder is null''))
   \<and> (getFolder this h \<noteq> None \<longrightarrow> (\<forall>e. getAbsolutePath this h \<noteq> Some (Inl e)))"
  by (auto simp: getAbsolutePath_def getFolder_def setNullFolder_def split: option.splits)

text \<open>The detached file 3 of the example throws; the attached file 7 does not.\<close>

theorem getAbsolutePath_throws_witness:
  "getFolder 3 example_store = None
   \<and> getAbsolutePath 3 example_store = Some (Inl (Error ''Folder is null''))
   \<and> getFolder 7 example_store \<noteq> None
   \<and> getAbsolutePath 7 example_store \<noteq> Some (Inl (Error ''Folder is null''))"
  using getAbsolutePath_throws_iff_folder_null [of 3 example_store]
    getAbsolutePath_throws_iff_folder_null [of 7 example_store]
  by (simp add: getFolder_def example_store_def)

subsection \<open>Removing a file from its folder\<close>



section \<open>Properties of DiscordFileStorageApp\<close>

subsection \<open>The encryption configuration\<close>

text \<open>
  Claim C7. A first construction whose options the base constructor accepts succeeds. On
  every application a construction returns, \<^verbatim>\<open>shouldEncryptFiles\<close> returns the
  \<^verbatim>\<open>shouldEncrypt\<close> option and \<^verbatim>\<open>getEncryptPassword\<close> returns the \<^verbatim>\<open>encryptPassword\<close> option, or
  the empty string when the option is absent. Both getters read the application object
  alone: no file, no store and no earlier call is among their arguments, so the values are
  the same for every file and at every call.
\<close>

theorem encryption_configuration_is_the_constructor_supplied:
  "(super options = None \<longrightarrow>
      (\<exists>this. DiscordFileStorageApp_constructor super options gid None = (Inr this, Some this)))
   \<and> (\<forall>this inst inst'.
        DiscordFileStorageApp_constructor super options gid inst = (Inr this, inst') \<longrightarrow>
          inst' = Some this
          \<and> shouldEncryptFiles this = options_shouldEncrypt options
          \<and> getEncryptPassword this =
              (case options_encryptPassword options of None \<Rightarrow> '''' | Some p \<Rightarrow> p))"
  by (auto simp: DiscordFileStorageApp_constructor_def shouldEncryptFiles_def
      getEncryptPassword_def Let_def split: option.splits)

text \<open>The example options have no password: the application's password is empty.\<close>

theorem encryption_configuration_witness:
  "DiscordFileStorageApp_constructor (\<lambda>_. None) example_options ''42'' None =
     (Inr example_app, Some example_app)
   \<and> shouldEncryptFiles example_app \<and> getEncryptPassword example_app = ''''"
proof -
  have a: "DiscordFileStorageApp_constructor (\<lambda>_. None) example_options ''42'' None =
     (Inr example_app, Some example_app)"
    by (simp add: DiscordFileStorageApp_constructor_def Let_def example_options_def
        example_app_def)
  from encryption_configuration_is_the_constructor_supplied
    [of "\<lambda>_. None" example_options "''42''"] a
  have "shouldEncryptFiles example_app = options_shouldEncrypt example_options"
    and "getEncryptPassword example_app =
      (case options_encryptPassword example_options of None \<Rightarrow> '''' | Some p \<Rightarrow> p)"
    by blast+
  with a show ?thesis by (simp add: example_options_def)
qed

subsection \<open>The single instance\<close>







subsection \<open>Startup without the guild\<close>

text \<open>
  A run of \<^verbatim>\<open>prepare\<close> that goes through: the metadata channel exists, the files channel
  is created.
\<close>

lemma prepare_example:
  "prepare example_app example_client ([] :: unit console list) =
     ([LoggerInfo ''Guild found: home'', Console Yellow ''Fetching channels...'',
       Console Green ''channel already exists: meta'',
       Console Plain ''creating channel: files''],
      Returned (example_guild\<lparr>channels :=
        [example_channel,
         \<lparr>channel_name = ''files'', channel_type = GuildText,
          messages_fetch = history_fetch []\<rparr>]\<rparr>))"
  by (simp add: prepare_def example_app_def example_client_def example_guild_def
      example_channel_def channels_create_def dom_def Let_def)

text \<open>
  The two paths of \<^verbatim>\<open>prepare\<close> that reach \<^verbatim>\<open>printAndExit\<close>: the configured guild is not in the
  client's cache, or the awaited fetch resolves to no guild (the test \<^verbatim>\<open>!guild\<close>). Each
  prints the error in red and ends the process with exit code 1; nothing is logged after
  the error and no channel is fetched or created.
\<close>

lemma prepare_exits_without_guild:
  "(guilds_cache client (guildId this) = None \<longrightarrow>
      prepare this client out = (out @ [Console Red ''Guild not found''], Exited 1))
   \<and> (guilds_cache client (guildId this) = Some g \<and> guild_fetch client g = Inr None \<longrightarrow>
      prepare this client out =
        (out @ [Console Red (''Failed to fetch guild: '' @ guildId this)], Exited 1))"
  by (auto simp: prepare_def printAndExit_def Let_def dom_def)

lemma prepare_exits_example:
  "prepare example_app (example_client\<lparr>guilds_cache := Map.empty\<rparr>)
        ([] :: unit console list) =
        ([Console Red ''Guild not found''], Exited 1)
   \<and> prepare example_app (example_client\<lparr>guild_fetch := (\<lambda>g. Inr None)\<rparr>)
        ([] :: unit console list) =
        ([Console Red ''Failed to fetch guild: 42''], Exited 1)"
  using prepare_exits_without_guild
    [where client = "example_client\<lparr>guilds_cache := Map.empty\<rparr>"
       and this = example_app and g = example_guild and out = "[] :: unit console list"]
    prepare_exits_without_guild
    [where client = "example_client\<lparr>guild_fetch := (\<lambda>g. Inr None)\<rparr>"
       and this = example_app and g = example_guild and out = "[] :: unit console list"]
  by (simp add: example_app_def example_client_def)

text \<open>
  A cached guild whose fetch rejects: the \<^verbatim>\<open>await\<close> throws, \<^verbatim>\<open>prepare\<close> rejects with the
  transport's error, and neither the test \<^verbatim>\<open>!guild\<close> nor \<^verbatim>\<open>printAndExit\<close> is reached.
\<close>

lemma prepare_rejected_fetch:
  "guilds_cache client (guildId this) = Some g \<Longrightarrow> guild_fetch client g = Inl e \<Longrightarrow>
     prepare this client out = (out, Threw e)"
  by (auto simp: prepare_def Let_def dom_def)

text \<open>
  Claim C5. The claim holds of the guild that is not cached. It does not hold of the
  cached guild that cannot be fetched: \<^verbatim>\<open>fetch()\<close> signals the failure by rejecting, and in
  the example below \<^verbatim>\<open>prepare\<close> then prints nothing and does not end the process; it throws
  the transport's error to its caller. The code attempts the exit the claim describes
  (\<^verbatim>\<open>if (!guild) printAndExit("Failed to fetch guild: ...")\<close>) and misses it for want of a
  \<^verbatim>\<open>catch\<close> around the \<^verbatim>\<open>await\<close>.
\<close>

theorem prepare_rejected_fetch_is_not_reported:
  "prepare example_app
     (example_client\<lparr>guild_fetch := (\<lambda>g. Inl (Rejected ''Missing Access''))\<rparr>)
     ([] :: unit console list) =
     ([], Threw (Rejected ''Missing Access''))"
  by (simp add: prepare_def example_app_def example_client_def dom_def)

section \<open>Properties of the startup rebuild\<close>

subsection \<open>Paging through the history\<close>







subsection \<open>The loop over the messages\<close>













subsection \<open>The example rebuild\<close>













subsection \<open>The claims about the rebuild\<close>






end
